theory Spec2Isabelle
  imports Complex_Main
begin

section \<open>Python text\<close>

text \<open>
  A Python \<open>str\<close> is modelled as a \<open>string\<close>: a list of characters whose code points lie
  below 256.  \<open>str.strip()\<close> removes the characters for which \<open>str.isspace\<close> holds from both
  ends; below 256 these are U+0009..U+000D, U+001C..U+0020, U+0085 and U+00A0.
\<close>

definition py_isspace :: "char \<Rightarrow> bool" where
  "py_isspace c =
     (let n = (of_char c :: nat)
      in (9 \<le> n \<and> n \<le> 13) \<or> (28 \<le> n \<and> n \<le> 32) \<or> n = 133 \<or> n = 160)"

definition strip :: "string \<Rightarrow> string" where
  "strip s = rev (dropWhile py_isspace (rev (dropWhile py_isspace s)))"

text \<open>The test \<open>p in s\<close> on strings.\<close>

fun py_in :: "string \<Rightarrow> string \<Rightarrow> bool" where
  "py_in p [] = (p = [])"
| "py_in p (c # cs) = (take (length p) (c # cs) = p \<or> py_in p cs)"

text \<open>\<open>template.format(file=p)\<close> for the command templates of the registry, whose only
  replacement field is \<open>{file}\<close>.\<close>

fun format_file :: "string \<Rightarrow> string \<Rightarrow> string" where
  "format_file [] p = []"
| "format_file (c # cs) p =
     (if take 6 (c # cs) = ''{file}'' then p @ format_file (drop 5 cs) p
      else c # format_file cs p)"

text \<open>\<open>str(n)\<close> for an integer.\<close>

fun str_nat :: "nat \<Rightarrow> string" where
  "str_nat n =
     (if n < 10 then [char_of (48 + n)]
      else str_nat (n div 10) @ [char_of (48 + n mod 10)])"

definition str_int :: "int \<Rightarrow> string" where
  "str_int i = (if i < 0 then CHR ''-'' # str_nat (nat (- i)) else str_nat (nat i))"

section \<open>Python floats\<close>

text \<open>
  A Python \<open>float\<close> is an IEEE 754 binary64 number.  A finite float is kept as the real it
  denotes; the sign of a zero is not kept, since no operation of the program observes it.
  \<open>to_float x\<close> is the float nearest to the real \<open>x\<close>, a tie going to the even
  significand, and an infinity when the rounded value leaves the range.  It is how a
  decimal literal, an integer and the exact result of an arithmetic operation become a
  float.
\<close>

datatype pyfloat = Finite real | PosInf | NegInf | NaN

text \<open>\<open>bits n\<close> is the number of binary digits of \<open>n\<close>, and \<open>float_exponent x\<close> the \<open>e\<close> with
  \<open>2^e \<le> |x| < 2^(e+1)\<close> for \<open>x \<noteq> 0\<close>.\<close>

fun bits :: "nat \<Rightarrow> nat" where
  "bits n = (if n = 0 then 0 else Suc (bits (n div 2)))"

declare bits.simps [simp del]

definition pow2 :: "int \<Rightarrow> real" where
  "pow2 e = 2 powi e"

definition float_exponent :: "real \<Rightarrow> int" where
  "float_exponent x =
     (if 1 \<le> \<bar>x\<bar> then int (bits (nat \<lfloor>\<bar>x\<bar>\<rfloor>)) - 1
      else - int (bits (nat (\<lceil>1 / \<bar>x\<bar>\<rceil> - 1))))"

definition round_half_even :: "real \<Rightarrow> int" where
  "round_half_even y =
     (let f = \<lfloor>y\<rfloor>; d = y - of_int f
      in if d < 1 / 2 then f else if 1 / 2 < d then f + 1 else if even f then f else f + 1)"

text \<open>Rounding to 53 significant bits; below \<open>2^-1022\<close> the spacing stays \<open>2^-1074\<close>.\<close>

definition rnd :: "real \<Rightarrow> real" where
  "rnd x =
     (if x = 0 then 0
      else let q = pow2 (max (float_exponent x) (- 1022) - 52)
           in of_int (round_half_even (x / q)) * q)"

definition huge :: real where
  "huge = 2 ^ 1024"

definition to_float :: "real \<Rightarrow> pyfloat" where
  "to_float x =
     (let y = rnd x
      in if huge \<le> y then PosInf else if y \<le> - huge then NegInf else Finite y)"

text \<open>Addition, negation and subtraction of floats.\<close>

fun fadd :: "pyfloat \<Rightarrow> pyfloat \<Rightarrow> pyfloat" where
  "fadd (Finite a) (Finite b) = to_float (a + b)"
| "fadd NaN y = NaN"
| "fadd x NaN = NaN"
| "fadd PosInf NegInf = NaN"
| "fadd NegInf PosInf = NaN"
| "fadd PosInf y = PosInf"
| "fadd NegInf y = NegInf"
| "fadd (Finite a) y = y"

fun fneg :: "pyfloat \<Rightarrow> pyfloat" where
  "fneg (Finite a) = Finite (- a)"
| "fneg PosInf = NegInf"
| "fneg NegInf = PosInf"
| "fneg NaN = NaN"

definition fsub :: "pyfloat \<Rightarrow> pyfloat \<Rightarrow> pyfloat" where
  "fsub x y = fadd x (fneg y)"

text \<open>\<open>x / n\<close> for a float \<open>x\<close> and a positive integer \<open>n\<close>, which is first converted to a
  float.\<close>

fun fdiv :: "pyfloat \<Rightarrow> nat \<Rightarrow> pyfloat" where
  "fdiv (Finite a) n = to_float (a / rnd (real n))"
| "fdiv x n = x"

text \<open>\<open>x > y\<close>, \<open>fabs(x) >= fabs(y)\<close>, and the test \<open>c && isfinite(c)\<close> on floats.\<close>

fun fgt :: "pyfloat \<Rightarrow> pyfloat \<Rightarrow> bool" where
  "fgt (Finite a) (Finite b) = (b < a)"
| "fgt NaN y = False"
| "fgt x NaN = False"
| "fgt x PosInf = False"
| "fgt NegInf y = False"
| "fgt x NegInf = True"
| "fgt PosInf y = True"

fun fabs_ge :: "pyfloat \<Rightarrow> pyfloat \<Rightarrow> bool" where
  "fabs_ge (Finite a) (Finite b) = (\<bar>b\<bar> \<le> \<bar>a\<bar>)"
| "fabs_ge NaN y = False"
| "fabs_ge x NaN = False"
| "fabs_ge (Finite a) y = False"
| "fabs_ge x y = True"

fun nonzero_finite :: "pyfloat \<Rightarrow> bool" where
  "nonzero_finite (Finite a) = (a \<noteq> 0)"
| "nonzero_finite x = False"

text \<open>\<open>round(x, 2)\<close> on a float: the decimal with two places nearest to the exact value of
  \<open>x\<close>, a tie going to the even last digit, converted back to a float; an infinity and
  \<open>NaN\<close> round to themselves.\<close>

fun py_round2 :: "pyfloat \<Rightarrow> pyfloat" where
  "py_round2 (Finite a) = to_float (of_int (round_half_even (a * 100)) / 100)"
| "py_round2 x = x"

text \<open>
  \<open>sum(xs)\<close> over floats, starting from the integer 0.  The first float is added to 0 by the
  general addition.  Up to CPython 3.11 every further float is added in turn; from
  CPython 3.12 on the running sum is compensated (Neumaier): the rounding errors are
  collected in \<open>c\<close> and added at the end when \<open>c\<close> is finite and not zero.
\<close>

fun neumaier :: "pyfloat \<Rightarrow> pyfloat \<Rightarrow> pyfloat list \<Rightarrow> pyfloat" where
  "neumaier f c [] = (if nonzero_finite c then fadd f c else f)"
| "neumaier f c (x # xs) =
     (let t = fadd f x
      in neumaier t
           (fadd c (if fabs_ge f x then fadd (fsub f t) x else fadd (fsub x t) f)) xs)"

fun py_sum :: "bool \<Rightarrow> pyfloat list \<Rightarrow> pyfloat" where
  "py_sum compensated [] = Finite 0"
| "py_sum compensated (x # xs) =
     (if compensated then neumaier (fadd (Finite 0) x) (Finite 0) xs
      else foldl fadd (fadd (Finite 0) x) xs)"

text \<open>\<open>max(xs, default=0)\<close>: the first of the greatest elements.\<close>

fun max_default :: "pyfloat list \<Rightarrow> pyfloat" where
  "max_default [] = Finite 0"
| "max_default (x # xs) = fold (\<lambda>item m. if fgt item m then item else m) xs x"

text \<open>Equality of two floats and of an integer with a float; the latter is exact.\<close>

fun float_eq :: "pyfloat \<Rightarrow> pyfloat \<Rightarrow> bool" where
  "float_eq (Finite a) (Finite b) = (a = b)"
| "float_eq PosInf PosInf = True"
| "float_eq NegInf NegInf = True"
| "float_eq x y = False"

fun int_float_eq :: "int \<Rightarrow> pyfloat \<Rightarrow> bool" where
  "int_float_eq i (Finite a) = (of_int i = a)"
| "int_float_eq i x = False"

section \<open>The JSON decoder and equality of decoded values\<close>

text \<open>
  \<open>execute_testcase\<close> calls \<open>json.loads\<close> of the Python standard library and compares the two
  decoded values with \<open>==\<close>.  The decoder is modelled after the library's scanner: JSON
  white space is space, tab, line feed and carriage return; a number is
  \<open>-?(0|[1-9][0-9]*)(\.[0-9]+)?([eE][-+]?[0-9]+)?\<close> and decodes to an \<open>int\<close> when it has
  neither fraction nor exponent and to a \<open>float\<close> otherwise; the constants \<open>NaN\<close>,
  \<open>Infinity\<close> and \<open>-Infinity\<close> are accepted; strings are strict (no control character,
  the escapes of the grammar, surrogate pairs joined); an object becomes a \<open>dict\<close>, so a
  repeated key keeps its first position and its last value.  \<open>None\<close> stands for the decoder
  raising, whatever the exception.

  Two limits of the interpreter make the decoder raise on well-formed text.  Converting
  more than \<open>max_digits\<close> digits to an \<open>int\<close> raises \<open>ValueError\<close> when \<open>max_digits\<close> is not
  zero (\<open>sys.get_int_max_str_digits()\<close>; the limit applies above 640 digits).  Entering an
  array or object at a nesting depth beyond \<open>max_depth\<close> raises \<open>RecursionError\<close>; how deep
  the decoder can go depends on the interpreter and on the call stack at that moment.

  \<open>JFloat NaN\<close> only comes from the constant \<open>NaN\<close>, for which the decoder returns one and
  the same object every time.
\<close>

datatype json =
    JNull
  | JBool bool
  | JInt int
  | JFloat pyfloat
  | JString "nat list"
  | JArray "json list"
  | JObject "(nat list \<times> json) list"

datatype token = TLBrace | TRBrace | TLBrack | TRBrack | TComma | TColon | TScalar json

definition is_digit :: "char \<Rightarrow> bool" where
  "is_digit c = (48 \<le> (of_char c :: nat) \<and> (of_char c :: nat) \<le> 57)"

definition digit_val :: "char \<Rightarrow> nat" where
  "digit_val c = of_char c - 48"

definition hex_val :: "char \<Rightarrow> nat option" where
  "hex_val c =
     (let n = (of_char c :: nat)
      in if 48 \<le> n \<and> n \<le> 57 then Some (n - 48)
         else if 65 \<le> n \<and> n \<le> 70 then Some (n - 55)
         else if 97 \<le> n \<and> n \<le> 102 then Some (n - 87)
         else None)"

fun hex4 :: "string \<Rightarrow> nat option" where
  "hex4 (a # b # c # d # _) =
     (case (hex_val a, hex_val b, hex_val c, hex_val d) of
        (Some x, Some y, Some z, Some w) \<Rightarrow> Some (((x * 16 + y) * 16 + z) * 16 + w)
      | _ \<Rightarrow> None)"
| "hex4 _ = None"

definition unescape :: "char \<Rightarrow> nat option" where
  "unescape e =
     (if e = CHR 0x22 then Some 34
      else if e = CHR 0x5C then Some 92
      else if e = CHR ''/'' then Some 47
      else if e = CHR ''b'' then Some 8
      else if e = CHR ''f'' then Some 12
      else if e = CHR ''n'' then Some 10
      else if e = CHR ''r'' then Some 13
      else if e = CHR ''t'' then Some 9
      else None)"

fun scanstring :: "string \<Rightarrow> nat list \<Rightarrow> nat \<Rightarrow> (nat list \<times> nat) option" where
  "scanstring [] acc n = None"
| "scanstring (c # cs) acc n =
     (if c = CHR 0x22 then Some (rev acc, Suc n)
      else if c = CHR 0x5C then
        (case cs of
           [] \<Rightarrow> None
         | e # es \<Rightarrow>
             if e = CHR ''u'' then
               (case hex4 es of
                  None \<Rightarrow> None
                | Some u \<Rightarrow>
                    if 0xD800 \<le> u \<and> u \<le> 0xDBFF \<and> take 2 (drop 4 es) = [CHR 0x5C, CHR ''u''] then
                      (case hex4 (drop 6 es) of
                         None \<Rightarrow> None
                       | Some u2 \<Rightarrow>
                           if 0xDC00 \<le> u2 \<and> u2 \<le> 0xDFFF
                           then scanstring (drop 10 es)
                                  ((0x10000 + (u - 0xD800) * 0x400 + (u2 - 0xDC00)) # acc) (n + 12)
                           else scanstring (drop 4 es) (u # acc) (n + 6))
                    else scanstring (drop 4 es) (u # acc) (n + 6))
             else
               (case unescape e of
                  None \<Rightarrow> None
                | Some v \<Rightarrow> scanstring es (v # acc) (n + 2)))
      else if (of_char c :: nat) < 32 then None
      else scanstring cs (of_char c # acc) (Suc n))"

definition digits_val :: "string \<Rightarrow> int" where
  "digits_val ds = int (foldl (\<lambda>a d. a * 10 + digit_val d) 0 ds)"

definition scan_int :: "string \<Rightarrow> (string \<times> string) option" where
  "scan_int s =
     (case s of
        [] \<Rightarrow> None
      | d # r \<Rightarrow>
          if d = CHR ''0'' then Some ([d], r)
          else if is_digit d then Some (d # takeWhile is_digit r, dropWhile is_digit r)
          else None)"

definition scan_frac :: "string \<Rightarrow> string \<times> string" where
  "scan_frac s =
     (case s of
        p # d # r \<Rightarrow>
          if p = CHR ''.'' \<and> is_digit d
          then (p # d # takeWhile is_digit r, dropWhile is_digit r)
          else ([], s)
      | _ \<Rightarrow> ([], s))"

definition scan_exp :: "string \<Rightarrow> string \<times> string" where
  "scan_exp s =
     (case s of
        e # r \<Rightarrow>
          if e = CHR ''e'' \<or> e = CHR ''E'' then
            (case r of
               g # d # r' \<Rightarrow>
                 if (g = CHR ''+'' \<or> g = CHR ''-'') \<and> is_digit d
                 then (e # g # d # takeWhile is_digit r', dropWhile is_digit r')
                 else if is_digit g
                 then (e # g # takeWhile is_digit (d # r'), dropWhile is_digit (d # r'))
                 else ([], s)
             | [g] \<Rightarrow> if is_digit g then ([e, g], []) else ([], s)
             | [] \<Rightarrow> ([], s))
          else ([], s)
      | [] \<Rightarrow> ([], s))"

text \<open>The exact value of a literal with fraction \<open>fp\<close> and exponent \<open>ep\<close>.\<close>

definition exponent_val :: "string \<Rightarrow> int" where
  "exponent_val ep =
     (case drop 1 ep of
        [] \<Rightarrow> 0
      | s # ds \<Rightarrow>
          if s = CHR ''-'' then - digits_val ds
          else if s = CHR ''+'' then digits_val ds
          else digits_val (s # ds))"

definition literal_val :: "bool \<Rightarrow> string \<Rightarrow> string \<Rightarrow> string \<Rightarrow> real" where
  "literal_val neg ip fp ep =
     (if neg then - 1 else 1)
     * (of_int (digits_val ip) + of_int (digits_val (drop 1 fp)) / 10 ^ length (drop 1 fp))
     * 10 powi exponent_val ep"

definition too_many_digits :: "nat \<Rightarrow> nat \<Rightarrow> bool" where
  "too_many_digits max_digits n = (0 < max_digits \<and> 640 < n \<and> max_digits < n)"

definition scan_number :: "nat \<Rightarrow> string \<Rightarrow> (json \<times> nat) option" where
  "scan_number max_digits s =
     (let neg = (take 1 s = ''-'');
          s0 = (if neg then drop 1 s else s)
      in case scan_int s0 of
           None \<Rightarrow> None
         | Some (ip, s1) \<Rightarrow>
             (let (fp, s2) = scan_frac s1;
                  (ep, s3) = scan_exp s2;
                  n = (if neg then 1 else 0) + length ip + length fp + length ep
              in if fp = [] \<and> ep = []
                 then if too_many_digits max_digits (length ip) then None
                      else Some (JInt (if neg then - digits_val ip else digits_val ip), n)
                 else Some (JFloat (to_float (literal_val neg ip fp ep)), n)))"

definition json_ws :: "char \<Rightarrow> bool" where
  "json_ws c = (c = CHR '' '' \<or> c = CHR 0x09 \<or> c = CHR 0x0A \<or> c = CHR 0x0D)"

definition tok :: "token \<Rightarrow> token list option \<Rightarrow> token list option" where
  "tok t r = map_option (Cons t) r"

fun lex :: "nat \<Rightarrow> string \<Rightarrow> token list option" where
  "lex max_digits [] = Some []"
| "lex max_digits (c # cs) =
     (if json_ws c then lex max_digits cs
      else if c = CHR 0x22 then
        (case scanstring cs [] 0 of
           None \<Rightarrow> None
         | Some (s, n) \<Rightarrow> tok (TScalar (JString s)) (lex max_digits (drop n cs)))
      else if c = CHR ''{'' then tok TLBrace (lex max_digits cs)
      else if c = CHR ''}'' then tok TRBrace (lex max_digits cs)
      else if c = CHR ''['' then tok TLBrack (lex max_digits cs)
      else if c = CHR '']'' then tok TRBrack (lex max_digits cs)
      else if c = CHR '','' then tok TComma (lex max_digits cs)
      else if c = CHR '':'' then tok TColon (lex max_digits cs)
      else if take 4 (c # cs) = ''null'' then tok (TScalar JNull) (lex max_digits (drop 3 cs))
      else if take 4 (c # cs) = ''true'' then tok (TScalar (JBool True)) (lex max_digits (drop 3 cs))
      else if take 5 (c # cs) = ''false'' then tok (TScalar (JBool False)) (lex max_digits (drop 4 cs))
      else if take 3 (c # cs) = ''NaN'' then tok (TScalar (JFloat NaN)) (lex max_digits (drop 2 cs))
      else if take 8 (c # cs) = ''Infinity'' then tok (TScalar (JFloat PosInf)) (lex max_digits (drop 7 cs))
      else if take 9 (c # cs) = ''-Infinity'' then tok (TScalar (JFloat NegInf)) (lex max_digits (drop 8 cs))
      else
        (case scan_number max_digits (c # cs) of
           None \<Rightarrow> None
         | Some (v, n) \<Rightarrow> tok (TScalar v) (lex max_digits (drop (n - 1) cs))))"

fun dict_set :: "(nat list \<times> json) list \<Rightarrow> nat list \<Rightarrow> json \<Rightarrow> (nat list \<times> json) list" where
  "dict_set [] k v = [(k, v)]"
| "dict_set ((k', v') # ms) k v = (if k' = k then (k, v) # ms else (k', v') # dict_set ms k v)"

datatype frame = FArr "json list" | FObj "(nat list \<times> json) list" "nat list"

text \<open>The stack holds the arrays and objects being decoded, so its length is the nesting
  depth.\<close>

fun scan_once :: "nat \<Rightarrow> frame list \<Rightarrow> token list \<Rightarrow> json option"
  and scanned :: "nat \<Rightarrow> json \<Rightarrow> frame list \<Rightarrow> token list \<Rightarrow> json option" where
  "scan_once max_depth st [] = None"
| "scan_once max_depth st (t # ts) =
     (case t of
        TScalar v \<Rightarrow> scanned max_depth v st ts
      | TLBrack \<Rightarrow>
          if max_depth \<le> length st then None
          else (case ts of
                  TRBrack # ts' \<Rightarrow> scanned max_depth (JArray []) st ts'
                | _ \<Rightarrow> scan_once max_depth (FArr [] # st) ts)
      | TLBrace \<Rightarrow>
          if max_depth \<le> length st then None
          else (case ts of
                  TRBrace # ts' \<Rightarrow> scanned max_depth (JObject []) st ts'
                | TScalar (JString k) # TColon # ts' \<Rightarrow>
                    scan_once max_depth (FObj [] k # st) ts'
                | _ \<Rightarrow> None)
      | _ \<Rightarrow> None)"
| "scanned max_depth v [] ts = (if ts = [] then Some v else None)"
| "scanned max_depth v (f # st) [] = None"
| "scanned max_depth v (f # st) (t # ts) =
     (case f of
        FArr es \<Rightarrow>
          (case t of
             TComma \<Rightarrow> scan_once max_depth (FArr (v # es) # st) ts
           | TRBrack \<Rightarrow> scanned max_depth (JArray (rev (v # es))) st ts
           | _ \<Rightarrow> None)
      | FObj ms k \<Rightarrow>
          (case t of
             TComma \<Rightarrow>
               (case ts of
                  TScalar (JString k') # TColon # ts' \<Rightarrow>
                    scan_once max_depth (FObj (dict_set ms k v) k' # st) ts'
                | _ \<Rightarrow> None)
           | TRBrace \<Rightarrow> scanned max_depth (JObject (dict_set ms k v)) st ts
           | _ \<Rightarrow> None))"

definition json_loads :: "nat \<Rightarrow> nat \<Rightarrow> string \<Rightarrow> json option" where
  "json_loads max_depth max_digits s =
     (case lex max_digits s of None \<Rightarrow> None | Some ts \<Rightarrow> scan_once max_depth [] ts)"

text \<open>
  \<open>py_eq d a b\<close> is \<open>a == b\<close> on decoded values; \<open>None\<close> stands for \<open>RecursionError\<close>.  Each
  comparison of two values takes one level of the \<open>d\<close> levels that are left, and the
  elements of a list or dict are compared one level further down.  \<open>bool\<close> is a subclass
  of \<open>int\<close>: \<open>True == 1\<close> and \<open>False == 0\<close>; an \<open>int\<close> and a \<open>float\<close> are compared exactly.
  Lists are equal when they have the same length and equal elements, compared in order up
  to the first unequal pair; dicts when they have the same number of keys and every key
  of the left is a key of the right with an equal value.  Inside a list or dict two
  elements are compared with \<open>x is y or x == y\<close>; between two decoded documents the \<open>NaN\<close>
  object is the one shared object that is not equal to itself.
\<close>

fun scalar_eq :: "json \<Rightarrow> json \<Rightarrow> bool" where
  "scalar_eq JNull b = (b = JNull)"
| "scalar_eq (JBool x) b =
     (case b of
        JBool y \<Rightarrow> x = y
      | JInt j \<Rightarrow> (if x then 1 else 0) = j
      | JFloat g \<Rightarrow> int_float_eq (if x then 1 else 0) g
      | _ \<Rightarrow> False)"
| "scalar_eq (JInt i) b =
     (case b of
        JBool y \<Rightarrow> i = (if y then 1 else 0)
      | JInt j \<Rightarrow> i = j
      | JFloat g \<Rightarrow> int_float_eq i g
      | _ \<Rightarrow> False)"
| "scalar_eq (JFloat f) b =
     (case b of
        JBool y \<Rightarrow> int_float_eq (if y then 1 else 0) f
      | JInt j \<Rightarrow> int_float_eq j f
      | JFloat g \<Rightarrow> float_eq f g
      | _ \<Rightarrow> False)"
| "scalar_eq (JString s) b = (b = JString s)"
| "scalar_eq a b = False"

fun py_eq :: "nat \<Rightarrow> json \<Rightarrow> json \<Rightarrow> bool option"
  and list_eq :: "nat \<Rightarrow> json list \<Rightarrow> json list \<Rightarrow> bool option"
  and dict_eq :: "nat \<Rightarrow> (nat list \<times> json) list \<Rightarrow> (nat list \<times> json) list \<Rightarrow> bool option"
where
  "py_eq 0 a b = None"
| "py_eq (Suc d) (JArray xs) b =
     (case b of
        JArray ys \<Rightarrow> if length xs = length ys then list_eq d xs ys else Some False
      | _ \<Rightarrow> Some False)"
| "py_eq (Suc d) (JObject ms) b =
     (case b of
        JObject ns \<Rightarrow> if length ms = length ns then dict_eq d ms ns else Some False
      | _ \<Rightarrow> Some False)"
| "py_eq (Suc d) a b = Some (scalar_eq a b)"
| "list_eq d [] ys = Some True"
| "list_eq d (x # xs) ys =
     (case ys of
        [] \<Rightarrow> Some True
      | y # ys' \<Rightarrow>
          (case (if x = JFloat NaN \<and> y = JFloat NaN then Some True else py_eq d x y) of
             None \<Rightarrow> None
           | Some False \<Rightarrow> Some False
           | Some True \<Rightarrow> list_eq d xs ys'))"
| "dict_eq d [] ns = Some True"
| "dict_eq d ((k, v) # ms) ns =
     (case map_of ns k of
        None \<Rightarrow> Some False
      | Some v' \<Rightarrow>
          (case (if v = JFloat NaN \<and> v' = JFloat NaN then Some True else py_eq d v v') of
             None \<Rightarrow> None
           | Some False \<Rightarrow> Some False
           | Some True \<Rightarrow> dict_eq d ms ns))"

section \<open>Data model\<close>

text \<open>The testcase schemas (\<open>schemas/execution.py\<close>) and the outcome record of one
  isolation attempt (the execution service).  Durations and memory figures are Python
  floats; an integer stored in such a field (\<open>0\<close>, \<open>timeout_seconds * 1000\<close>) is kept as the
  float it is converted to when the result is built.  The schemas of the request, the
  summary and the response are declared with the batch runner, which is where they are
  used.\<close>

record TestcaseInput =
  input' :: string
  expected_output :: string

record TestcaseResult =
  testcase_index :: nat
  passed :: bool
  actual_output :: string
  expected_output :: string
  execution_time_ms :: pyfloat
  memory_used_mb :: pyfloat
  error :: "string option"

record ExecutionResult =
  output' :: string
  execution_time_ms :: pyfloat
  memory_used_mb :: pyfloat
  error :: "string option"
  timed_out :: bool

record language_config =
  extension :: string
  compile_cmd :: "string option"
  run_cmd :: string
  image' :: string

definition PYTHON_CMD :: "bool \<Rightarrow> string" where
  "PYTHON_CMD win32 = (if win32 then ''python'' else ''python3'')"

definition LANGUAGE_CONFIG :: "bool \<Rightarrow> string \<rightharpoonup> language_config" where
  "LANGUAGE_CONFIG win32 =
     [''python'' \<mapsto>
        \<lparr>extension = ''.py'', compile_cmd = None,
         run_cmd = PYTHON_CMD win32 @ '' {file}'', image' = ''python:3.11-slim''\<rparr>]"

section \<open>The world outside the program\<close>

text \<open>
  Exceptions are values.  Every constructor is a subclass of \<open>Exception\<close>; \<open>str_exn\<close> is
  \<open>str(e)\<close>.  A \<open>bytes\<close> value is represented by what decoding it as UTF-8 gives: its text, or
  the message of the \<open>UnicodeDecodeError\<close>.
\<close>

datatype bytes = Utf8 string | Undecodable string

datatype exn =
    ValueError string
  | FileExistsError string
  | FileNotFoundError string
  | IsADirectoryError string
  | OverflowError string
  | TimeoutExpired string int
  | ContainerError "bytes option" string
  | DockerException string
  | ConnectionError string
  | UnicodeDecodeError string
  | RequestValidationError string
  | OtherException string

fun str_exn :: "exn \<Rightarrow> string" where
  "str_exn (ValueError m) = m"
| "str_exn (FileExistsError m) = m"
| "str_exn (FileNotFoundError m) = m"
| "str_exn (IsADirectoryError m) = m"
| "str_exn (OverflowError m) = m"
| "str_exn (TimeoutExpired cmd t) =
     ''Command '' @ [CHR 0x27] @ cmd @ [CHR 0x27] @ '' timed out after '' @ str_int t @ '' seconds''"
| "str_exn (ContainerError err m) = m"
| "str_exn (DockerException m) = m"
| "str_exn (ConnectionError m) = m"
| "str_exn (UnicodeDecodeError m) = m"
| "str_exn (RequestValidationError m) = m"
| "str_exn (OtherException m) = m"

fun decode :: "bytes \<Rightarrow> exn + string" where
  "decode (Utf8 s) = Inr s"
| "decode (Undecodable m) = Inl (UnicodeDecodeError m)"

text \<open>Truth value of an optional \<open>bytes\<close> and of an optional \<open>str\<close>: \<open>None\<close> and the empty
  value are false.\<close>

fun truthy_bytes :: "bytes option \<Rightarrow> bool" where
  "truthy_bytes None = False"
| "truthy_bytes (Some (Utf8 s)) = (s \<noteq> [])"
| "truthy_bytes (Some (Undecodable m)) = True"

fun truthy :: "string option \<Rightarrow> bool" where
  "truthy None = False"
| "truthy (Some s) = (s \<noteq> [])"

text \<open>
  A child process either exits with a return code, its two output streams and the
  wall-clock time it took in milliseconds, or never exits, or \<open>subprocess.run\<close> fails with
  another exception (the command cannot be started, an output stream cannot be decoded).
  \<open>subprocess.run(cmd, timeout=t)\<close> starts the child and waits for it.  The wait raises at
  once when the platform does not take the timeout (\<open>poll\<close> takes at most \<open>2 ^ 31 - 1\<close>
  milliseconds: \<open>OverflowError: timeout is too large\<close>), and raises \<open>TimeoutExpired\<close> when the
  child is still running after \<open>t\<close> seconds.
\<close>

datatype process = Exits int string string real | Hangs | Fails exn

record CompletedProcess =
  returncode :: int
  stdout :: string
  stderr :: string

fun wait_process :: "process \<Rightarrow> string \<Rightarrow> int \<Rightarrow> exn + CompletedProcess \<times> real" where
  "wait_process (Exits rc out err ms) cmd t =
     (if of_int t * 1000 < ms then Inl (TimeoutExpired cmd t)
      else Inr (\<lparr>returncode = rc, stdout = out, stderr = err\<rparr>, ms))"
| "wait_process Hangs cmd t = Inl (TimeoutExpired cmd t)"
| "wait_process (Fails e) cmd t = Inl e"

definition subprocess_run ::
  "exn option \<Rightarrow> process \<Rightarrow> string \<Rightarrow> int \<Rightarrow> exn + CompletedProcess \<times> real" where
  "subprocess_run overflow p cmd t =
     (case overflow of Some e \<Rightarrow> Inl e | None \<Rightarrow> wait_process p cmd t)"

text \<open>\<open>client.containers.run\<close> returns the container's log (\<open>bytes\<close>, or \<open>None\<close> when the
  logging driver keeps none) after the container has exited, or raises; it takes no
  timeout.  The real number is the wall-clock time of the call in milliseconds.\<close>

datatype container = Returns "bytes option" real | Raises exn

text \<open>A path is a directory and a file name.  The file system maps a path to a regular
  file with its content or to a directory.  \<open>os.unlink\<close> removes a regular file and raises
  on a directory.\<close>

datatype node = File string | Dir

type_synonym path = "string \<times> string"
type_synonym filesystem = "path \<rightharpoonup> node"

definition path_str :: "path \<Rightarrow> string" where
  "path_str p = fst p @ ''/'' @ snd p"

definition os_unlink :: "path \<Rightarrow> filesystem \<Rightarrow> exn + filesystem" where
  "os_unlink p fs =
     (case fs p of
        None \<Rightarrow>
          Inl (FileNotFoundError
                 (''[Errno 2] No such file or directory: '' @ [CHR 0x27] @ path_str p @ [CHR 0x27]))
      | Some Dir \<Rightarrow>
          Inl (IsADirectoryError
                 (''[Errno 21] Is a directory: '' @ [CHR 0x27] @ path_str p @ [CHR 0x27]))
      | Some (File c) \<Rightarrow> Inr (fs(p := None)))"

text \<open>
  What one execution attempt meets outside the program: the platform; whether the
  container runtime answers the probe (\<open>None\<close>) or which exception the probe raises; the
  temporary directory and the names \<open>mkstemp\<close> draws; whether writing a file fails; the
  exception the platform's wait raises for a timeout it does not take; what a child process started with a command (and an input) on a file system does, and the file
  system it leaves (a child of the local executor runs unconfined on the host); what the
  container does (its only mount is read-only, so it leaves the host's file system as it
  is); the nesting depth the JSON decoder and the comparison can take before
  \<open>RecursionError\<close>; the limit on the digits of an integer; and whether \<open>sum\<close> compensates
  (CPython 3.12 and later).
\<close>

record world =
  win32 :: bool
  docker_probe :: "exn option"
  tempdir :: string
  mkstemp_names :: "string list"
  write_failure :: "exn option"
  input_write_failure :: "exn option"
  timeout_overflow :: "int \<Rightarrow> exn option"
  compile_process :: "string \<Rightarrow> filesystem \<Rightarrow> process \<times> filesystem"
  run_process :: "string \<Rightarrow> string \<Rightarrow> filesystem \<Rightarrow> process \<times> filesystem"
  container_run :: "string \<Rightarrow> string \<Rightarrow> int \<Rightarrow> container"
  json_max_depth :: nat
  eq_max_depth :: nat
  int_max_str_digits :: nat
  compensated_sum :: bool

section \<open>Source materializer\<close>

text \<open>\<open>tempfile.mkstemp(suffix)\<close> creates, with exclusive open, the first drawn name that does
  not exist, and raises when every drawn name exists.\<close>

definition mkstemp :: "world \<Rightarrow> filesystem \<Rightarrow> string \<Rightarrow> (exn + path) \<times> filesystem" where
  "mkstemp w fs suffix =
     (case find (\<lambda>p. fs p = None)
             (map (\<lambda>n. (tempdir w, ''tmp'' @ n @ suffix)) (mkstemp_names w)) of
        None \<Rightarrow> (Inl (FileExistsError ''No usable temporary file name found''), fs)
      | Some p \<Rightarrow> (Inr p, fs(p \<mapsto> File [])))"

definition create_solution_file ::
  "world \<Rightarrow> filesystem \<Rightarrow> string \<Rightarrow> string \<Rightarrow> (exn + path) \<times> filesystem" where
  "create_solution_file w fs code language =
     (case LANGUAGE_CONFIG (win32 w) language of
        None \<Rightarrow> (Inl (ValueError (''Unsupported language: '' @ language)), fs)
      | Some config \<Rightarrow>
          (let code' =
                 (if language = ''java'' \<and> \<not> py_in ''class Solution'' code
                  then ''public class Solution {'' @ [CHR 0x0A] @ code @ [CHR 0x0A] @ ''}''
                  else code)
           in case mkstemp w fs (extension config) of
                (Inl e, fs1) \<Rightarrow> (Inl e, fs1)
              | (Inr path, fs1) \<Rightarrow>
                  (case write_failure w of
                     None \<Rightarrow> (Inr path, fs1(path \<mapsto> File code'))
                   | Some e \<Rightarrow> (Inl e, fs1(path := None)))))"

text \<open>One statement of a \<open>finally\<close> clause: \<open>if p and os.path.exists(p): os.unlink(p)\<close>.  It is
  not guarded: when \<open>os.unlink\<close> raises, the exception leaves the clause.\<close>

fun unlink_if_exists :: "path option \<Rightarrow> filesystem \<Rightarrow> exn + filesystem" where
  "unlink_if_exists None fs = Inr fs"
| "unlink_if_exists (Some p) fs = (if fs p \<noteq> None then os_unlink p fs else Inr fs)"

section \<open>Local process executor\<close>

definition error_result :: "string \<Rightarrow> ExecutionResult" where
  "error_result msg =
     \<lparr>output' = [], execution_time_ms = Finite 0, memory_used_mb = Finite 0,
      error = Some msg, timed_out = False\<rparr>"

text \<open>The compile step of \<open>run_code_locally\<close>: \<open>Inr None\<close> when execution goes on, \<open>Inr (Some r)\<close>
  when the function returns \<open>r\<close>, \<open>Inl e\<close> when \<open>e\<close> is raised; and the file system the
  compiler leaves.\<close>

definition compile_step ::
  "world \<Rightarrow> filesystem \<Rightarrow> language_config \<Rightarrow> path
   \<Rightarrow> (exn + ExecutionResult option) \<times> filesystem" where
  "compile_step w fs config file_path =
     (if compile_cmd config \<noteq> None \<and> compile_cmd config \<noteq> Some [] then
        (let compile_cmd = format_file (the (compile_cmd config)) (path_str file_path)
         in case compile_process w compile_cmd fs of
              (p, fs1) \<Rightarrow>
                (case subprocess_run (timeout_overflow w 30) p compile_cmd 30 of
                   Inl e \<Rightarrow> (Inl e, fs1)
                 | Inr (compile_result, ms) \<Rightarrow>
                     if returncode compile_result \<noteq> 0
                     then (Inr (Some (error_result
                                  (''Compilation error: '' @ stderr compile_result))), fs1)
                     else (Inr None, fs1)))
      else (Inr None, fs))"

text \<open>The inner \<open>try\<close> of \<open>run_code_locally\<close> with its \<open>except subprocess.TimeoutExpired\<close>.\<close>

definition run_step ::
  "world \<Rightarrow> filesystem \<Rightarrow> language_config \<Rightarrow> path \<Rightarrow> string \<Rightarrow> int
   \<Rightarrow> (exn + ExecutionResult) \<times> filesystem" where
  "run_step w fs config file_path input_data timeout_seconds =
     (let run_cmd = format_file (run_cmd config) (path_str file_path)
      in case run_process w run_cmd input_data fs of
           (p, fs1) \<Rightarrow>
             (case subprocess_run (timeout_overflow w timeout_seconds) p run_cmd
                     timeout_seconds of
                Inl (TimeoutExpired c t) \<Rightarrow>
                  Inr \<lparr>output' = [],
                       execution_time_ms = to_float (of_int (timeout_seconds * 1000)),
                       memory_used_mb = Finite 0, error = Some ''Time limit exceeded'',
                       timed_out = True\<rparr>
              | Inl e \<Rightarrow> Inl e
              | Inr (result, execution_time) \<Rightarrow>
                  if returncode result \<noteq> 0 then
                    Inr \<lparr>output' = strip (stdout result),
                         execution_time_ms = to_float execution_time,
                         memory_used_mb = Finite 0,
                         error = Some (if stderr result \<noteq> [] then strip (stderr result)
                                       else ''Runtime error''),
                         timed_out = False\<rparr>
                  else
                    Inr \<lparr>output' = strip (stdout result),
                         execution_time_ms = to_float execution_time,
                         memory_used_mb = Finite 0, error = None, timed_out = False\<rparr>,
              fs1))"

text \<open>The body of the outer \<open>try\<close>: its outcome, the value of the variable \<open>file_path\<close> when
  the body is left, and the file system.\<close>

definition run_code_locally_try ::
  "world \<Rightarrow> filesystem \<Rightarrow> language_config \<Rightarrow> string \<Rightarrow> string \<Rightarrow> string \<Rightarrow> int
   \<Rightarrow> (exn + ExecutionResult) \<times> path option \<times> filesystem" where
  "run_code_locally_try w fs config code language input_data timeout_seconds =
     (case create_solution_file w fs code language of
        (Inl e, fs1) \<Rightarrow> (Inl e, None, fs1)
      | (Inr file_path, fs1) \<Rightarrow>
          (case compile_step w fs1 config file_path of
             (Inl e, fs2) \<Rightarrow> (Inl e, Some file_path, fs2)
           | (Inr (Some r), fs2) \<Rightarrow> (Inr r, Some file_path, fs2)
           | (Inr None, fs2) \<Rightarrow>
               (case run_step w fs2 config file_path input_data timeout_seconds of
                  (r, fs3) \<Rightarrow> (r, Some file_path, fs3))))"

text \<open>\<open>except Exception as e: return ExecutionResult(..., error=str(e))\<close>.\<close>

fun except_Exception :: "exn + ExecutionResult \<Rightarrow> exn + ExecutionResult" where
  "except_Exception (Inl e) = Inr (error_result (str_exn e))"
| "except_Exception (Inr r) = Inr r"

text \<open>The \<open>finally\<close> clause runs after the body and its handler; an exception it raises
  replaces the outcome that was about to be returned.\<close>

definition run_code_locally ::
  "world \<Rightarrow> filesystem \<Rightarrow> string \<Rightarrow> string \<Rightarrow> string \<Rightarrow> int \<Rightarrow> int
   \<Rightarrow> (exn + ExecutionResult) \<times> filesystem" where
  "run_code_locally w fs code language input_data timeout_seconds memory_limit_mb =
     (case LANGUAGE_CONFIG (win32 w) language of
        None \<Rightarrow> (Inr (error_result (''Unsupported language: '' @ language)), fs)
      | Some config \<Rightarrow>
          (case run_code_locally_try w fs config code language input_data timeout_seconds of
             (r, file_path, fs1) \<Rightarrow>
               (case unlink_if_exists file_path fs1 of
                  Inl e \<Rightarrow> (Inl e, fs1)
                | Inr fs2 \<Rightarrow> (except_Exception r, fs2))))"

section \<open>Containerized executor\<close>

text \<open>\<open>open(input_file_path, 'w')\<close> followed by the write: opening a directory raises, opening
  anything else creates or empties the file.\<close>

definition write_input :: "world \<Rightarrow> filesystem \<Rightarrow> path \<Rightarrow> string \<Rightarrow> exn option \<times> filesystem" where
  "write_input w fs p input_data =
     (if fs p = Some Dir then
        (Some (IsADirectoryError
                 (''[Errno 21] Is a directory: '' @ [CHR 0x27] @ path_str p @ [CHR 0x27])), fs)
      else case input_write_failure w of
             Some e \<Rightarrow> (Some e, fs(p \<mapsto> File []))
           | None \<Rightarrow> (None, fs(p \<mapsto> File input_data)))"

text \<open>\<open>f"{memory_limit_mb}m"\<close>: converting an integer to a string raises when the integer has
  more digits than the interpreter's limit, if it has one.\<close>

definition mem_limit :: "nat \<Rightarrow> int \<Rightarrow> exn + string" where
  "mem_limit max_digits memory_limit_mb =
     (if 0 < max_digits \<and> max_digits < length (str_nat (nat \<bar>memory_limit_mb\<bar>)) then
        Inl (ValueError
               (''Exceeds the limit ('' @ str_nat max_digits
                @ '' digits) for integer string conversion; ''
                @ ''use sys.set_int_max_str_digits() to increase the limit''))
      else Inr (str_int memory_limit_mb @ ''m''))"

text \<open>\<open>memory_limit_mb * 0.5\<close>: the integer is converted to a float, which raises when it is
  out of range, and halved.\<close>

definition half_memory :: "int \<Rightarrow> exn + pyfloat" where
  "half_memory memory_limit_mb =
     (case to_float (of_int memory_limit_mb) of
        Finite a \<Rightarrow> Inr (to_float (a * (5 / 10)))
      | _ \<Rightarrow> Inl (OverflowError ''int too large to convert to float''))"

text \<open>The body of the \<open>try\<close> of \<open>run_code_docker\<close>: its outcome, the variables \<open>file_path\<close> and
  \<open>input_file_path\<close> when the body is left, and the file system.  The volume path handed to
  the container and the unused \<open>compile_part\<close> play no part in the outcome.\<close>

definition run_code_docker_try ::
  "world \<Rightarrow> filesystem \<Rightarrow> language_config \<Rightarrow> string \<Rightarrow> string \<Rightarrow> string \<Rightarrow> int
   \<Rightarrow> (exn + ExecutionResult) \<times> path option \<times> path option \<times> filesystem" where
  "run_code_docker_try w fs config code language input_data memory_limit_mb =
     (case create_solution_file w fs code language of
        (Inl e, fs1) \<Rightarrow> (Inl e, None, None, fs1)
      | (Inr file_path, fs1) \<Rightarrow>
          (let file_name = snd file_path;
               temp_dir = fst file_path;
               input_file_path = (temp_dir, ''input.txt'')
           in case write_input w fs1 input_file_path input_data of
                (Some e, fs2) \<Rightarrow> (Inl e, Some file_path, Some input_file_path, fs2)
              | (None, fs2) \<Rightarrow>
                  (let run_part = format_file (run_cmd config) (''/code/'' @ file_name);
                       full_command =
                         ''echo '' @ [CHR 0x27] @ input_data @ [CHR 0x27] @ '' | '' @ run_part
                   in (case mem_limit (int_max_str_digits w) memory_limit_mb of
                         Inl e \<Rightarrow> Inl e
                       | Inr limit \<Rightarrow>
                           (case container_run w (image' config) full_command memory_limit_mb of
                              Raises e \<Rightarrow> Inl e
                            | Returns out execution_time \<Rightarrow>
                                (case (case out of Some b \<Rightarrow> decode b | None \<Rightarrow> Inr ''None'') of
                                   Inl e \<Rightarrow> Inl e
                                 | Inr s \<Rightarrow>
                                     (case half_memory memory_limit_mb of
                                        Inl e \<Rightarrow> Inl e
                                      | Inr memory \<Rightarrow>
                                          Inr \<lparr>output' = strip s,
                                               execution_time_ms = to_float execution_time,
                                               memory_used_mb = memory,
                                               error = None, timed_out = False\<rparr>))),
                       Some file_path, Some input_file_path, fs2))))"

text \<open>The two handlers of \<open>run_code_docker\<close>.  The first formats
  \<open>e.stderr.decode() if e.stderr else str(e)\<close>; an exception raised while it does so leaves
  the function, since a handler is not guarded by the handlers beside it.\<close>

fun docker_handlers :: "exn + ExecutionResult \<Rightarrow> exn + ExecutionResult" where
  "docker_handlers (Inl (ContainerError err m)) =
     (case (if truthy_bytes err then decode (the err) else Inr m) of
        Inl e' \<Rightarrow> Inl e'
      | Inr s \<Rightarrow> Inr (error_result (''Runtime error: '' @ s)))"
| "docker_handlers (Inl e) = Inr (error_result (str_exn e))"
| "docker_handlers (Inr r) = Inr r"

text \<open>The \<open>finally\<close> clause of \<open>run_code_docker\<close>: two statements in a row, so that an exception
  from the first skips the second.\<close>

definition docker_finally :: "path option \<Rightarrow> path option \<Rightarrow> filesystem \<Rightarrow> exn option \<times> filesystem" where
  "docker_finally file_path input_file_path fs =
     (case unlink_if_exists file_path fs of
        Inl e \<Rightarrow> (Some e, fs)
      | Inr fs1 \<Rightarrow>
          (case unlink_if_exists input_file_path fs1 of
             Inl e \<Rightarrow> (Some e, fs1)
           | Inr fs2 \<Rightarrow> (None, fs2)))"

definition run_code_docker ::
  "world \<Rightarrow> filesystem \<Rightarrow> string \<Rightarrow> string \<Rightarrow> string \<Rightarrow> int \<Rightarrow> int
   \<Rightarrow> (exn + ExecutionResult) \<times> filesystem" where
  "run_code_docker w fs code language input_data timeout_seconds memory_limit_mb =
     (case docker_probe w of
        Some e \<Rightarrow> run_code_locally w fs code language input_data timeout_seconds memory_limit_mb
      | None \<Rightarrow>
          (case LANGUAGE_CONFIG (win32 w) language of
             None \<Rightarrow> (Inr (error_result (''Unsupported language: '' @ language)), fs)
           | Some config \<Rightarrow>
               (case run_code_docker_try w fs config code language input_data memory_limit_mb of
                  (r, file_path, input_file_path, fs1) \<Rightarrow>
                    (case docker_finally file_path input_file_path fs1 of
                       (Some e, fs2) \<Rightarrow> (Inl e, fs2)
                     | (None, fs2) \<Rightarrow> (docker_handlers r, fs2)))))"

section \<open>Outcome comparator and execution orchestrator\<close>

text \<open>The comparison of \<open>execute_testcase\<close>: both outputs are decoded and compared inside one
  \<open>try\<close>, and the bare \<open>except\<close> falls back to comparing the strings.\<close>

definition compare_output :: "world \<Rightarrow> string \<Rightarrow> string \<Rightarrow> bool" where
  "compare_output w actual expected =
     (case json_loads (json_max_depth w) (int_max_str_digits w) actual of
        None \<Rightarrow> actual = expected
      | Some obj_actual \<Rightarrow>
          (case json_loads (json_max_depth w) (int_max_str_digits w) expected of
             None \<Rightarrow> actual = expected
           | Some obj_expected \<Rightarrow>
               (case py_eq (eq_max_depth w) obj_actual obj_expected of
                  None \<Rightarrow> actual = expected
                | Some b \<Rightarrow> b)))"

definition execute_testcase ::
  "world \<Rightarrow> filesystem \<Rightarrow> string \<Rightarrow> string \<Rightarrow> TestcaseInput \<Rightarrow> nat \<Rightarrow> int \<Rightarrow> int \<Rightarrow> bool
   \<Rightarrow> (exn + TestcaseResult) \<times> filesystem" where
  "execute_testcase w fs code language testcase testcase_index' timeout_seconds memory_limit_mb
     use_docker =
     (let executor = (if use_docker then run_code_docker else run_code_locally)
      in case executor w fs code language (input' testcase) timeout_seconds memory_limit_mb of
           (Inl e, fs1) \<Rightarrow> (Inl e, fs1)
         | (Inr result, fs1) \<Rightarrow>
             (let actual = strip (output' result);
                  expected = strip (TestcaseInput.expected_output testcase)
              in (Inr \<lparr>testcase_index = testcase_index',
                       passed = compare_output w actual expected,
                       actual_output = actual,
                       expected_output = expected,
                       execution_time_ms = ExecutionResult.execution_time_ms result,
                       memory_used_mb = ExecutionResult.memory_used_mb result,
                       error = ExecutionResult.error result\<rparr>,
                  fs1)))"

section \<open>Batch runner\<close>

text \<open>The loop of \<open>execute_code\<close> from testcase \<open>i\<close> on.  The state is the list of results,
  the submission-level runtime error and the file system; testcase \<open>i\<close> meets the world
  \<open>worlds i\<close>.  An exception leaving \<open>execute_testcase\<close> leaves the loop.\<close>

fun run_testcases ::
  "(nat \<Rightarrow> world) \<Rightarrow> string \<Rightarrow> string \<Rightarrow> int \<Rightarrow> int \<Rightarrow> nat \<Rightarrow> TestcaseInput list
   \<Rightarrow> TestcaseResult list \<Rightarrow> string option \<Rightarrow> filesystem
   \<Rightarrow> (exn + TestcaseResult list \<times> string option) \<times> filesystem" where
  "run_testcases worlds code language timeout memory i [] results runtime_error fs =
     (Inr (results, runtime_error), fs)"
| "run_testcases worlds code language timeout memory i (testcase # rest) results runtime_error fs =
     (case execute_testcase (worlds i) fs code language testcase i timeout memory True of
        (Inl e, fs1) \<Rightarrow> (Inl e, fs1)
      | (Inr result, fs1) \<Rightarrow>
          run_testcases worlds code language timeout memory (Suc i) rest (results @ [result])
            (if truthy (TestcaseResult.error result) \<and> \<not> truthy runtime_error
             then TestcaseResult.error result else runtime_error)
            fs1)"

record ExecutionSummary =
  passed :: int
  failed :: int
  total :: int
  avg_execution_time_ms :: pyfloat
  max_memory_mb :: pyfloat

text \<open>The summary of \<open>execute_code\<close>.  \<open>compensated\<close> tells which \<open>sum\<close> the interpreter has.  With
  no result the average is the integer 0, which \<open>round\<close> leaves as it is.\<close>

definition summarize :: "bool \<Rightarrow> TestcaseResult list \<Rightarrow> ExecutionSummary" where
  "summarize compensated results =
     (let passed = int (length (filter TestcaseResult.passed results));
          failed = int (length results) - passed;
          avg_time =
            (if results \<noteq> []
             then fdiv (py_sum compensated (map TestcaseResult.execution_time_ms results))
                    (length results)
             else Finite 0);
          max_memory = max_default (map TestcaseResult.memory_used_mb results)
      in \<lparr>passed = passed, failed = failed, total = int (length results),
          avg_execution_time_ms = py_round2 avg_time, max_memory_mb = py_round2 max_memory\<rparr>)"

record ExecutionRequest =
  code :: string
  language :: string
  testcases :: "TestcaseInput list"
  timeout_seconds :: int
  memory_limit_mb :: int

record ExecutionResponse =
  results :: "TestcaseResult list"
  summary :: ExecutionSummary
  runtime_error :: "string option"

record Settings =
  code_timeout_seconds :: int
  code_memory_limit_mb :: int

text \<open>\<open>execute_code\<close> on a request that has passed validation.  The summary is computed in the
  world after the last testcase.\<close>

definition execute_code ::
  "Settings \<Rightarrow> (nat \<Rightarrow> world) \<Rightarrow> filesystem \<Rightarrow> ExecutionRequest
   \<Rightarrow> (exn + ExecutionResponse) \<times> filesystem" where
  "execute_code settings worlds fs request =
     (let timeout = min (timeout_seconds request) (code_timeout_seconds settings);
          memory = min (memory_limit_mb request) (code_memory_limit_mb settings)
      in case run_testcases worlds (code request) (language request) timeout memory 0
                (testcases request) [] None fs of
           (Inl e, fs1) \<Rightarrow> (Inl e, fs1)
         | (Inr (results', runtime_error'), fs1) \<Rightarrow>
             (Inr \<lparr>results = results',
                   summary =
                     summarize (compensated_sum (worlds (length (testcases request)))) results',
                   runtime_error = runtime_error'\<rparr>, fs1))"

text \<open>The field constraints of \<open>ExecutionRequest\<close>.  The route declares its body with this
  schema, so the framework checks the constraints before it calls \<open>execute_code\<close> and
  answers with a validation error, without calling it, when one fails.\<close>

definition valid_request :: "ExecutionRequest \<Rightarrow> bool" where
  "valid_request r =
     ((language r = ''python'' \<or> language r = ''cpp'' \<or> language r = ''java'')
      \<and> testcases r \<noteq> []
      \<and> 1 \<le> timeout_seconds r \<and> timeout_seconds r \<le> 30
      \<and> 64 \<le> memory_limit_mb r \<and> memory_limit_mb r \<le> 512)"

definition post_execute ::
  "Settings \<Rightarrow> (nat \<Rightarrow> world) \<Rightarrow> filesystem \<Rightarrow> ExecutionRequest
   \<Rightarrow> (exn + ExecutionResponse) \<times> filesystem" where
  "post_execute settings worlds fs request =
     (if valid_request request then execute_code settings worlds fs request
      else (Inl (RequestValidationError ''422 Unprocessable Entity''), fs))"

section \<open>Concrete worlds and requests\<close>

text \<open>A development machine with CPython 3.11: the container runtime does not answer, and
  the child process prints its input followed by a newline after 1.25 ms and leaves the
  file system as it is.\<close>

definition example_world :: world where
  "example_world =
     \<lparr>win32 = False,
      docker_probe = Some (DockerException ''Error while fetching server API version''),
      tempdir = ''/tmp'', mkstemp_names = [''k3x9''],
      write_failure = None, input_write_failure = None,
      timeout_overflow =
        (\<lambda>t. if 2147483 < t then Some (OverflowError ''timeout is too large'') else None),
      compile_process = (\<lambda>cmd fs. (Fails (OtherException ''no compiler''), fs)),
      run_process = (\<lambda>cmd inp fs. (Exits 0 (inp @ [CHR 0x0A]) [] (5 / 4), fs)),
      container_run = (\<lambda>img cmd mem. Raises (ConnectionError ''Connection aborted.'')),
      json_max_depth = 900, eq_max_depth = 900, int_max_str_digits = 4300,
      compensated_sum = False\<rparr>"

definition example_settings :: Settings where
  "example_settings = \<lparr>code_timeout_seconds = 10, code_memory_limit_mb = 256\<rparr>"

definition example_request :: "string \<Rightarrow> TestcaseInput list \<Rightarrow> ExecutionRequest" where
  "example_request l tcs =
     \<lparr>code = ''print(input())'', language = l, testcases = tcs,
      timeout_seconds = 10, memory_limit_mb = 256\<rparr>"

section \<open>Facts about floats\<close>

lemma pow2_eval: "pow2 e = (if 0 \<le> e then 2 ^ nat e else 1 / 2 ^ nat (- e))"
  by (simp add: pow2_def power_int_def field_simps)

text \<open>The definitions a concrete float computation unfolds.\<close>

lemmas float_evals = to_float_def huge_def rnd_def float_exponent_def pow2_eval
  round_half_even_def bits.simps Let_def

lemma bits_bounds: "0 < n \<Longrightarrow> 2 ^ (bits n - 1) \<le> n \<and> n < 2 ^ bits n"
proof (induction n rule: bits.induct)
  case (1 n)
  show ?case
  proof (cases "n div 2 = 0")
    case True
    with "1.prems" have "n = 1" by (simp add: div_eq_0_iff)
    then show ?thesis by (simp add: bits.simps)
  next
    case False
    then have pos: "0 < n div 2" by simp
    from "1.IH" [OF _ pos] "1.prems"
    have ih: "2 ^ (bits (n div 2) - 1) \<le> n div 2" "n div 2 < 2 ^ bits (n div 2)" by simp_all
    have b: "bits n = Suc (bits (n div 2))" using "1.prems" by (subst bits.simps) simp
    have bpos: "0 < bits (n div 2)" using pos by (subst bits.simps) simp
    have "2 ^ (bits n - 1) = 2 * 2 ^ (bits (n div 2) - 1)"
      using bpos by (simp add: b flip: power_Suc)
    also have "\<dots> \<le> 2 * (n div 2)" using ih(1) by simp
    also have "\<dots> \<le> n" by simp
    finally have lo: "2 ^ (bits n - 1) \<le> n" .
    have "n < 2 * (n div 2) + 2" by presburger
    also have "\<dots> \<le> 2 * 2 ^ bits (n div 2)" using ih(2) by simp
    finally have hi: "n < 2 ^ bits n" by (simp add: b)
    from lo hi show ?thesis ..
  qed
qed

lemma pow2_pos [simp]: "0 < pow2 e"
  by (simp add: pow2_def)

lemma pow2_add: "pow2 (a + b) = pow2 a * pow2 b"
  by (simp add: pow2_def power_int_add)

lemma pow2_nat: "0 \<le> e \<Longrightarrow> pow2 e = 2 ^ nat e"
  by (simp add: pow2_def power_int_def)

lemma pow2_of_nat: "pow2 (int n) = 2 ^ n"
  by (simp add: pow2_def)

lemma pow2_minus: "pow2 (- e) = 1 / pow2 e"
  by (simp add: pow2_def power_int_minus divide_simps)

lemma pow2_mono: "a \<le> b \<Longrightarrow> pow2 a \<le> pow2 b"
  by (simp add: pow2_def power_int_increasing)

lemma pow2_less_cancel: "pow2 a < pow2 b \<Longrightarrow> a < b"
  using pow2_mono [of b a] by (cases "a < b") auto

text \<open>\<open>float_exponent x\<close> is the exponent of the binade of \<open>x\<close>.\<close>

lemma float_exponent_bounds:
  assumes "x \<noteq> 0"
  shows "pow2 (float_exponent x) \<le> \<bar>x\<bar> \<and> \<bar>x\<bar> < pow2 (float_exponent x + 1)"
proof (cases "1 \<le> \<bar>x\<bar>")
  case True
  define n where "n = nat \<lfloor>\<bar>x\<bar>\<rfloor>"
  have npos: "0 < n" using True by (simp add: n_def)
  have e: "float_exponent x = int (bits n) - 1"
    using True by (simp add: float_exponent_def n_def)
  have bpos: "0 < bits n" using npos by (subst bits.simps) simp
  from bits_bounds [OF npos] have lo: "2 ^ (bits n - 1) \<le> n" and hi: "n < 2 ^ bits n"
    by simp_all
  have nle: "real n \<le> \<bar>x\<bar>" using True by (simp add: n_def)
  have xlt: "\<bar>x\<bar> < real n + 1" using True by (simp add: n_def)
  have "pow2 (float_exponent x) = 2 ^ (bits n - 1)"
    using bpos by (simp add: e pow2_def power_int_def nat_diff_distrib')
  also have "\<dots> \<le> real n" using lo by (metis of_nat_le_iff of_nat_numeral of_nat_power)
  finally have 1: "pow2 (float_exponent x) \<le> \<bar>x\<bar>" using nle by simp
  have "real n + 1 \<le> 2 ^ bits n"
    using hi by (metis Suc_leI of_nat_Suc of_nat_le_iff of_nat_numeral of_nat_power add.commute)
  moreover have "pow2 (float_exponent x + 1) = 2 ^ bits n"
    by (simp add: e pow2_def)
  ultimately have 2: "\<bar>x\<bar> < pow2 (float_exponent x + 1)" using xlt by simp
  from 1 2 show ?thesis ..
next
  case False
  then have small: "\<bar>x\<bar> < 1" by simp
  have xpos: "0 < \<bar>x\<bar>" using assms by simp
  define c where "c = \<lceil>1 / \<bar>x\<bar>\<rceil>"
  define n where "n = nat (c - 1)"
  have inv: "1 < 1 / \<bar>x\<bar>" using small xpos by simp
  have c2: "2 \<le> c" using inv by (simp add: c_def)
  have npos: "0 < n" using c2 by (simp add: n_def)
  have nc: "int n = c - 1" using c2 by (simp add: n_def)
  have e: "float_exponent x = - int (bits n)"
    using False by (simp add: float_exponent_def n_def c_def)
  have bpos: "0 < bits n" using npos by (subst bits.simps) simp
  from bits_bounds [OF npos] have lo: "2 ^ (bits n - 1) \<le> n" and hi: "n < 2 ^ bits n"
    by simp_all
  have cle: "1 / \<bar>x\<bar> \<le> of_int c" by (simp add: c_def)
  have cgt: "of_int c - 1 < 1 / \<bar>x\<bar>" by (simp add: c_def) linarith
  have "of_int c \<le> (2::real) ^ bits n"
  proof -
    have "c \<le> 2 ^ bits n"
      using hi nc
      by (metis of_nat_less_iff of_nat_numeral of_nat_power zless_imp_add1_zle diff_add_cancel)
    then show ?thesis by (metis of_int_le_iff of_int_numeral of_int_power)
  qed
  with cle have "1 / \<bar>x\<bar> \<le> 2 ^ bits n" by linarith
  then have "1 / 2 ^ bits n \<le> \<bar>x\<bar>"
    using xpos by (simp add: field_simps)
  moreover have "pow2 (float_exponent x) = 1 / 2 ^ bits n"
    by (simp add: e pow2_def power_int_minus divide_simps)
  ultimately have 1: "pow2 (float_exponent x) \<le> \<bar>x\<bar>" by simp
  have "(2::real) ^ (bits n - 1) \<le> of_int c - 1"
  proof -
    have "(2::real) ^ (bits n - 1) \<le> real n"
      using lo by (metis of_nat_le_iff of_nat_numeral of_nat_power)
    also have "real n = of_int c - 1"
      using nc by (metis of_int_of_nat_eq of_int_diff of_int_1)
    finally show ?thesis .
  qed
  with cgt have "2 ^ (bits n - 1) < 1 / \<bar>x\<bar>" by linarith
  then have "\<bar>x\<bar> < 1 / 2 ^ (bits n - 1)"
    using xpos by (simp add: field_simps)
  moreover have "pow2 (float_exponent x + 1) = 1 / 2 ^ (bits n - 1)"
  proof -
    have "float_exponent x + 1 = - int (bits n - 1)" using bpos by (simp add: e)
    then show ?thesis by (simp only: pow2_minus pow2_of_nat)
  qed
  ultimately have 2: "\<bar>x\<bar> < pow2 (float_exponent x + 1)" by simp
  from 1 2 show ?thesis ..
qed

lemma round_half_even_of_int [simp]: "round_half_even (of_int N) = N"
  by (simp add: round_half_even_def)

lemma round_half_even_between: "\<lfloor>z\<rfloor> \<le> round_half_even z \<and> round_half_even z \<le> \<lceil>z\<rceil>"
proof (cases "z = of_int \<lfloor>z\<rfloor>")
  case True
  then have "round_half_even z = \<lfloor>z\<rfloor>" by (metis round_half_even_of_int)
  moreover have "\<lceil>z\<rceil> = \<lfloor>z\<rfloor>" using True by (metis ceiling_of_int)
  ultimately show ?thesis by simp
next
  case False
  then have "\<lceil>z\<rceil> = \<lfloor>z\<rfloor> + 1" by (simp add: ceiling_altdef)
  then show ?thesis by (auto simp: round_half_even_def Let_def)
qed

text \<open>A number with a significand of at most 53 bits and an exponent in range is a float:
  rounding leaves it as it is.\<close>

lemma rnd_exact:
  assumes n: "\<bar>n\<bar> < 2 ^ 53" and k: "- 1074 \<le> k"
  shows "rnd (of_int n * pow2 k) = of_int n * pow2 k"
proof (cases "n = 0")
  case True
  then show ?thesis by (simp add: rnd_def)
next
  case False
  let ?x = "of_int n * pow2 k"
  have x0: "?x \<noteq> 0" using False by (simp add: less_imp_neq [OF pow2_pos, symmetric])
  let ?e = "float_exponent ?x"
  have "pow2 ?e \<le> \<bar>?x\<bar>" using float_exponent_bounds [OF x0] by blast
  also have "\<bar>?x\<bar> = \<bar>of_int n\<bar> * pow2 k"
    by (simp add: abs_mult abs_of_pos)
  also have "\<dots> < 2 ^ 53 * pow2 k"
  proof -
    have "\<bar>real_of_int n\<bar> < 2 ^ 53"
      using n by (metis of_int_abs of_int_less_iff of_int_numeral of_int_power)
    then show ?thesis by (simp add: mult_strict_right_mono)
  qed
  also have "\<dots> = pow2 (53 + k)" by (simp add: pow2_add pow2_nat)
  finally have "?e < 53 + k" by (rule pow2_less_cancel)
  then have le: "max ?e (- 1022) - 52 \<le> k" using k by simp
  define q where "q = pow2 (max ?e (- 1022) - 52)"
  define j where "j = nat (k - (max ?e (- 1022) - 52))"
  have qpos: "0 < q" by (simp add: q_def)
  have kj: "k = (max ?e (- 1022) - 52) + int j" using le by (simp add: j_def)
  have pk: "pow2 k = q * 2 ^ j"
    unfolding q_def by (subst kj) (simp add: pow2_add pow2_of_nat)
  define y where "y = pow2 k"
  have "of_int n * y / q = of_int (n * 2 ^ j)"
    using pk qpos by (simp add: y_def)
  then have "round_half_even (of_int n * y / q) = n * 2 ^ j"
    by (simp only: round_half_even_of_int)
  then have "rnd ?x = of_int (n * 2 ^ j) * q"
    using x0 by (simp add: rnd_def Let_def q_def y_def)
  also have "\<dots> = ?x"
    using pk by simp
  finally show ?thesis .
qed

text \<open>Every rounded value has that form.\<close>

lemma rnd_form:
  assumes "x \<noteq> 0"
  shows "\<exists>n k. rnd x = of_int n * pow2 k \<and> \<bar>n\<bar> < 2 ^ 53
               \<and> max (float_exponent x) (- 1022) - 52 \<le> k"
proof -
  define e where "e = max (float_exponent x) (- 1022)"
  define q where "q = pow2 (e - 52)"
  define R where "R = round_half_even (x / q)"
  have qpos: "0 < q" by (simp add: q_def)
  have r: "rnd x = of_int R * q"
    using assms by (simp add: rnd_def Let_def R_def q_def e_def)
  have "\<bar>x\<bar> < pow2 (float_exponent x + 1)" using float_exponent_bounds [OF assms] by blast
  also have "\<dots> \<le> pow2 (e + 1)" by (rule pow2_mono) (simp add: e_def)
  also have "\<dots> = q * 2 ^ 53"
  proof -
    have "e + 1 = (e - 52) + 53" by simp
    then show ?thesis unfolding q_def by (simp only: pow2_add) (simp add: pow2_nat)
  qed
  finally have xq: "\<bar>x\<bar> < q * 2 ^ 53" .
  have z1: "x / q < 2 ^ 53"
    using xq qpos by (simp add: field_simps abs_less_iff)
  have z2: "- (2 ^ 53) < x / q"
    using xq qpos by (simp add: field_simps abs_less_iff)
  have f1: "- (2 ^ 53) \<le> \<lfloor>x / q\<rfloor>"
  proof -
    have "real_of_int (- (2 ^ 53)) \<le> x / q" using z2 by simp
    then show ?thesis by (simp only: le_floor_iff)
  qed
  have f2: "\<lceil>x / q\<rceil> \<le> 2 ^ 53"
  proof -
    have "x / q \<le> real_of_int (2 ^ 53)" using z1 by simp
    then show ?thesis by (simp only: ceiling_le_iff)
  qed
  have Rb: "- (2 ^ 53) \<le> R" "R \<le> 2 ^ 53"
    using round_half_even_between [of "x / q"] f1 f2 unfolding R_def by linarith+
  show ?thesis
  proof (cases "\<bar>R\<bar> < 2 ^ 53")
    case True
    with r show ?thesis
      by - (rule exI [of _ R], rule exI [of _ "e - 52"], simp add: q_def e_def)
  next
    case False
    with Rb have "R = 2 ^ 53 \<or> R = - (2 ^ 53)" by linarith
    moreover have "q * 2 = pow2 (e - 51)"
    proof -
      have "e - 51 = (e - 52) + 1" by simp
      then show ?thesis unfolding q_def by (simp only: pow2_add) (simp add: pow2_def)
    qed
    ultimately have
      "rnd x = of_int (2 ^ 52) * pow2 (e - 51) \<or> rnd x = of_int (- (2 ^ 52)) * pow2 (e - 51)"
      using r by auto
    then show ?thesis
    proof
      assume "rnd x = of_int (2 ^ 52) * pow2 (e - 51)"
      then show ?thesis
        by - (rule exI [of _ "2 ^ 52"], rule exI [of _ "e - 51"], simp add: e_def)
    next
      assume "rnd x = of_int (- (2 ^ 52)) * pow2 (e - 51)"
      then show ?thesis
        by - (rule exI [of _ "- (2 ^ 52)"], rule exI [of _ "e - 51"], simp add: e_def)
    qed
  qed
qed

lemma to_float_Finite: "to_float x = Finite a \<Longrightarrow> a = rnd x \<and> \<bar>a\<bar> < huge"
  by (auto simp: to_float_def Let_def abs_less_iff split: if_splits)

lemma to_float_exact:
  assumes "\<bar>n\<bar> < 2 ^ 53" and "- 1074 \<le> k" and "\<bar>of_int n * pow2 k\<bar> < huge"
  shows "to_float (of_int n * pow2 k) = Finite (of_int n * pow2 k)"
  using assms(3) by (auto simp: to_float_def rnd_exact [OF assms(1,2)] Let_def abs_less_iff)

text \<open>Half of the float of an integer is a float with at most two decimals: halving it and
  rounding it to two decimals are both exact.\<close>

lemma half_of_int_float:
  assumes "to_float (of_int m) = Finite a"
  shows "to_float (a * (5 / 10)) = Finite (a / 2)
       \<and> to_float (of_int (round_half_even (a / 2 * 100)) / 100) = Finite (a / 2)"
proof -
  from to_float_Finite [OF assms] have a: "a = rnd (of_int m)" and fin: "\<bar>a\<bar> < huge"
    by blast+
  have "\<exists>n k. a / 2 = of_int n * pow2 k \<and> \<bar>n\<bar> < 2 ^ 53 \<and> - 1074 \<le> k
          \<and> (\<exists>N. a / 2 * 100 = of_int N)"
  proof (cases "\<bar>m\<bar> < 2 ^ 53")
    case True
    have "rnd (of_int m * pow2 0) = of_int m * pow2 0" by (rule rnd_exact [OF True]) simp
    then have am: "a = of_int m" by (simp add: a pow2_def)
    have h1: "a / 2 = of_int m * pow2 (- 1)" by (simp add: am pow2_eval)
    have h2: "a / 2 * 100 = of_int (50 * m)" by (simp add: am)
    have h3: "- 1074 \<le> (- 1 :: int)" by simp
    from h1 h2 h3 True show ?thesis by blast
  next
    case False
    then have big: "2 ^ 53 \<le> \<bar>real_of_int m\<bar>"
      by (metis not_less of_int_abs of_int_le_iff of_int_numeral of_int_power)
    then have m0: "real_of_int m \<noteq> 0" by auto
    have "pow2 53 \<le> \<bar>real_of_int m\<bar>" using big by (simp add: pow2_nat)
    also have "\<dots> < pow2 (float_exponent (of_int m) + 1)"
      using float_exponent_bounds [OF m0] by blast
    finally have e: "53 \<le> float_exponent (real_of_int m)"
      using pow2_less_cancel by fastforce
    from rnd_form [OF m0] obtain n k where nk:
      "a = of_int n * pow2 k" "\<bar>n\<bar> < 2 ^ 53"
      "max (float_exponent (real_of_int m)) (- 1022) - 52 \<le> k"
      unfolding a by blast
    from nk(3) e have k1: "1 \<le> k" by simp
    have "pow2 k = pow2 (k - 1) * 2"
    proof -
      have "k = (k - 1) + 1" by simp
      then have "pow2 k = pow2 (k - 1) * pow2 1" by (metis pow2_add)
      then show ?thesis by (simp add: pow2_def)
    qed
    then have half: "a / 2 = of_int n * pow2 (k - 1)" by (simp add: nk(1))
    have "pow2 (k - 1) = 2 ^ nat (k - 1)" using k1 by (simp add: pow2_nat)
    then have "a / 2 * 100 = of_int (n * 2 ^ nat (k - 1) * 100)" by (simp add: half)
    moreover have "- 1074 \<le> k - 1" using k1 by simp
    ultimately show ?thesis using half nk(2) by blast
  qed
  then obtain n k N where h: "a / 2 = of_int n * pow2 k" "\<bar>n\<bar> < 2 ^ 53" "- 1074 \<le> k"
    "a / 2 * 100 = of_int N"
    by blast
  have small: "\<bar>of_int n * pow2 k\<bar> < huge" using fin by (simp flip: h(1))
  have 1: "to_float (a / 2) = Finite (a / 2)"
    using to_float_exact [OF h(2,3) small] by (simp add: h(1))
  have "of_int (round_half_even (a / 2 * 100)) / 100 = a / 2"
    by (simp only: h(4) round_half_even_of_int) (simp flip: h(4))
  with 1 show ?thesis by simp
qed

section \<open>Outcomes of one testcase\<close>

text \<open>The definitions a concrete run unfolds.\<close>

lemmas eval_defs =
  run_code_docker_def run_code_docker_try_def docker_finally_def write_input_def
  mem_limit_def half_memory_def run_code_locally_def run_code_locally_try_def
  create_solution_file_def mkstemp_def compile_step_def run_step_def subprocess_run_def
  os_unlink_def path_str_def LANGUAGE_CONFIG_def PYTHON_CMD_def error_result_def strip_def
  py_isspace_def str_int_def execute_testcase_def execute_code_def post_execute_def
  valid_request_def summarize_def example_world_def example_settings_def example_request_def
  Let_def

lemma py_eq_numeral:
  "py_eq (numeral k) a b =
     (case a of
        JArray xs \<Rightarrow>
          (case b of
             JArray ys \<Rightarrow>
               if length xs = length ys then list_eq (pred_numeral k) xs ys else Some False
           | _ \<Rightarrow> Some False)
      | JObject ms \<Rightarrow>
          (case b of
             JObject ns \<Rightarrow>
               if length ms = length ns then dict_eq (pred_numeral k) ms ns else Some False
           | _ \<Rightarrow> Some False)
      | _ \<Rightarrow> Some (scalar_eq a b))"
  by (cases a) (simp_all add: numeral_eq_Suc)

lemmas json_evals =
  compare_output_def json_loads_def json_ws_def tok_def scan_number_def scan_int_def
  scan_frac_def scan_exp_def is_digit_def digits_val_def digit_val_def too_many_digits_def
  literal_val_def exponent_val_def py_eq_numeral

lemma json_loads_empty: "json_loads d n [] = None"
  by (simp add: json_loads_def)

lemma compare_output_empty: "compare_output w [] e = (e = [])"
  by (auto simp: compare_output_def json_loads_empty)

lemma execute_testcase_Inr:
  assumes "execute_testcase w fs c l tc idx t m d = (Inr tr, fs1)"
  shows "\<exists>r. (if d then run_code_docker else run_code_locally) w fs c l (input' tc) t m
               = (Inr r, fs1)
           \<and> tr = \<lparr>testcase_index = idx,
                   passed = compare_output w (strip (output' r))
                              (strip (TestcaseInput.expected_output tc)),
                   actual_output = strip (output' r),
                   expected_output = strip (TestcaseInput.expected_output tc),
                   execution_time_ms = ExecutionResult.execution_time_ms r,
                   memory_used_mb = ExecutionResult.memory_used_mb r,
                   error = ExecutionResult.error r\<rparr>"
  using assms
  by (auto simp: execute_testcase_def Let_def split: prod.splits sum.splits if_splits)

section \<open>The batch loop\<close>

lemma run_testcases_Inr:
  assumes "run_testcases worlds c l t m i tcs rs re fs = (Inr (rs', re'), fs')"
  shows "\<exists>new. rs' = rs @ new \<and> length new = length tcs
           \<and> (\<forall>k<length tcs. \<exists>fa fb.
                  execute_testcase (worlds (i + k)) fa c l (tcs ! k) (i + k) t m True
                    = (Inr (new ! k), fb))
           \<and> re' = fold (\<lambda>r e. if truthy (TestcaseResult.error r) \<and> \<not> truthy e
                               then TestcaseResult.error r else e) new re"
  using assms
proof (induction tcs arbitrary: i rs re fs)
  case Nil
  then show ?case by simp
next
  case (Cons tc tcs)
  obtain x fs1 where ex: "execute_testcase (worlds i) fs c l tc i t m True = (x, fs1)"
    by (cases "execute_testcase (worlds i) fs c l tc i t m True") auto
  show ?case
  proof (cases x)
    case (Inl e)
    with ex Cons.prems show ?thesis by simp
  next
    case (Inr result)
    let ?re1 = "if truthy (TestcaseResult.error result) \<and> \<not> truthy re
                then TestcaseResult.error result else re"
    have "run_testcases worlds c l t m (Suc i) tcs (rs @ [result]) ?re1 fs1 = (Inr (rs', re'), fs')"
      using ex Inr Cons.prems by simp
    from Cons.IH [OF this] obtain new where new:
      "rs' = (rs @ [result]) @ new" "length new = length tcs"
      "\<forall>k<length tcs. \<exists>fa fb.
          execute_testcase (worlds (Suc i + k)) fa c l (tcs ! k) (Suc i + k) t m True
            = (Inr (new ! k), fb)"
      "re' = fold (\<lambda>r e. if truthy (TestcaseResult.error r) \<and> \<not> truthy e
                          then TestcaseResult.error r else e) new ?re1"
      by blast
    have "\<forall>k<length (tc # tcs). \<exists>fa fb.
            execute_testcase (worlds (i + k)) fa c l ((tc # tcs) ! k) (i + k) t m True
              = (Inr ((result # new) ! k), fb)"
    proof (intro allI impI)
      fix k assume k: "k < length (tc # tcs)"
      show "\<exists>fa fb. execute_testcase (worlds (i + k)) fa c l ((tc # tcs) ! k) (i + k) t m True
              = (Inr ((result # new) ! k), fb)"
      proof (cases k)
        case 0
        with ex Inr show ?thesis by auto
      next
        case (Suc k')
        with k new(3) show ?thesis by auto
      qed
    qed
    with new(1,2,4) show ?thesis
      by (intro exI [of _ "result # new"]) simp
  qed
qed

lemma fold_capture:
  "fold (\<lambda>r e. if truthy (TestcaseResult.error r) \<and> \<not> truthy e then TestcaseResult.error r else e)
        rs re =
   (if truthy re then re
    else case find truthy (map TestcaseResult.error rs) of None \<Rightarrow> re | Some e \<Rightarrow> e)"
  by (induction rs arbitrary: re) auto

text \<open>What a returned response is made of.\<close>

lemma execute_code_Inr:
  assumes "execute_code s worlds fs req = (Inr resp, fs')"
  shows "length (results resp) = length (testcases req)
       \<and> (\<forall>k<length (testcases req). \<exists>fa fb.
             execute_testcase (worlds k) fa (code req) (language req) (testcases req ! k) k
               (min (timeout_seconds req) (code_timeout_seconds s))
               (min (memory_limit_mb req) (code_memory_limit_mb s)) True
             = (Inr (results resp ! k), fb))
       \<and> runtime_error resp =
           (case find truthy (map TestcaseResult.error (results resp)) of
              None \<Rightarrow> None | Some e \<Rightarrow> e)
       \<and> summary resp =
           summarize (compensated_sum (worlds (length (testcases req)))) (results resp)"
proof -
  let ?t = "min (timeout_seconds req) (code_timeout_seconds s)"
  let ?m = "min (memory_limit_mb req) (code_memory_limit_mb s)"
  obtain rs re where run:
    "run_testcases worlds (code req) (language req) ?t ?m 0 (testcases req) [] None fs
       = (Inr (rs, re), fs')"
    and resp: "resp = \<lparr>results = rs,
                 summary = summarize (compensated_sum (worlds (length (testcases req)))) rs,
                 runtime_error = re\<rparr>"
    using assms
    by (auto simp: execute_code_def Let_def split: prod.splits sum.splits)
  from run_testcases_Inr [OF run] show ?thesis
    by (auto simp: resp fold_capture)
qed

section \<open>Timeouts\<close>

text \<open>
  Claim C1: a testcase whose run exceeds the configured timeout yields an outcome with
  \<open>timed_out\<close> set, the configured timeout (\<open>timeout_seconds * 1000\<close> ms) as duration and
  the time-limit error.  The containerized executor does not do so: with the runtime
  reachable and a timeout of 10 seconds, a container that exits after 15000 ms gives an
  outcome that is not timed out, lasts 15000 ms and carries no error.
\<close>

theorem C1_docker_run_ignores_timeout:
  "fst (run_code_docker
          (example_world\<lparr>docker_probe := None,
             container_run := (\<lambda>img cmd mem. Returns (Some (Utf8 [])) 15000)\<rparr>)
          Map.empty ''import time; time.sleep(15)'' ''python'' [] 10 256)
   = Inr \<lparr>output' = [], execution_time_ms = Finite 15000, memory_used_mb = Finite 128,
          error = None, timed_out = False\<rparr>"
  by (simp add: eval_defs float_evals)

section \<open>Exceptions at the boundary of the executors\<close>

text \<open>
  Claim C5: the executors never raise past their boundary for a compile failure, a
  non-zero exit, a timeout, an unsupported language or an internal exception; each is
  returned as fields of the outcome.  The containerized executor breaks this for a
  non-zero exit: when the container's error stream is not valid UTF-8, the handler of the
  container error raises \<open>UnicodeDecodeError\<close> while it formats the message, and that
  exception leaves \<open>run_code_docker\<close>.
\<close>

theorem C5_docker_handler_raises:
  "fst (run_code_docker
          (example_world\<lparr>docker_probe := None,
             container_run := (\<lambda>img cmd mem.
               Raises (ContainerError (Some (Undecodable ''invalid start byte''))
                         ''non-zero exit status 1''))\<rparr>)
          Map.empty ''import sys; sys.stderr.buffer.write(bytes([255])); sys.exit(1)''
          ''python'' [] 10 256)
   = Inl (UnicodeDecodeError ''invalid start byte'')"
  by (simp add: eval_defs)

section \<open>Order and indices of the results\<close>

text \<open>
  Claim C4: for a request with \<open>n\<close> testcases the returned list of results has length
  \<open>n\<close>, the \<open>testcase_index\<close> of each result is its position, and the result at position
  \<open>k\<close> is the one \<open>execute_testcase\<close> produced for testcase \<open>k\<close> of the request, whatever
  passed or failed.
\<close>

theorem C4_results_in_input_order:
  assumes "execute_code s worlds fs req = (Inr resp, fs')"
  shows "length (results resp) = length (testcases req)
       \<and> map testcase_index (results resp) = [0..<length (testcases req)]
       \<and> (\<forall>k<length (testcases req). \<exists>fa fb.
             execute_testcase (worlds k) fa (code req) (language req) (testcases req ! k) k
               (min (timeout_seconds req) (code_timeout_seconds s))
               (min (memory_limit_mb req) (code_memory_limit_mb s)) True
             = (Inr (results resp ! k), fb))"
proof -
  note h = execute_code_Inr [OF assms]
  have len: "length (results resp) = length (testcases req)" using h by blast
  have idx: "testcase_index (results resp ! k) = k" if "k < length (testcases req)" for k
  proof -
    from h that obtain fa fb where
      "execute_testcase (worlds k) fa (code req) (language req) (testcases req ! k) k
         (min (timeout_seconds req) (code_timeout_seconds s))
         (min (memory_limit_mb req) (code_memory_limit_mb s)) True
       = (Inr (results resp ! k), fb)"
      by blast
    from execute_testcase_Inr [OF this] show ?thesis by auto
  qed
  have "map testcase_index (results resp) = [0..<length (testcases req)]"
    by (rule nth_equalityI) (simp_all add: len idx)
  with h show ?thesis by blast
qed

theorem C4_witness:
  "execute_code example_settings (\<lambda>i. example_world) Map.empty
     (example_request ''python''
        [\<lparr>input' = ''3'', expected_output = ''3''\<rparr>, \<lparr>input' = ''4'', expected_output = ''5''\<rparr>])
   = (Inr \<lparr>results =
            [\<lparr>testcase_index = 0, passed = True, actual_output = ''3'', expected_output = ''3'',
              execution_time_ms = Finite (5 / 4), memory_used_mb = Finite 0, error = None\<rparr>,
             \<lparr>testcase_index = 1, passed = False, actual_output = ''4'', expected_output = ''5'',
              execution_time_ms = Finite (5 / 4), memory_used_mb = Finite 0, error = None\<rparr>],
          summary = \<lparr>passed = 1, failed = 1, total = 2,
                     avg_execution_time_ms = Finite (5 / 4), max_memory_mb = Finite 0\<rparr>,
          runtime_error = None\<rparr>, Map.empty)
   \<and> map testcase_index
        [\<lparr>testcase_index = 0, passed = True, actual_output = ''3'', expected_output = ''3'',
          execution_time_ms = Finite (5 / 4), memory_used_mb = Finite 0, error = None\<rparr>,
         \<lparr>testcase_index = 1, passed = False, actual_output = ''4'', expected_output = ''5'',
          execution_time_ms = Finite (5 / 4), memory_used_mb = Finite 0, error = None\<rparr>]
      = [0..<2]"
proof -
  have run: "execute_code example_settings (\<lambda>i. example_world) Map.empty
     (example_request ''python''
        [\<lparr>input' = ''3'', expected_output = ''3''\<rparr>, \<lparr>input' = ''4'', expected_output = ''5''\<rparr>])
   = (Inr \<lparr>results =
            [\<lparr>testcase_index = 0, passed = True, actual_output = ''3'', expected_output = ''3'',
              execution_time_ms = Finite (5 / 4), memory_used_mb = Finite 0, error = None\<rparr>,
             \<lparr>testcase_index = 1, passed = False, actual_output = ''4'', expected_output = ''5'',
              execution_time_ms = Finite (5 / 4), memory_used_mb = Finite 0, error = None\<rparr>],
          summary = \<lparr>passed = 1, failed = 1, total = 2,
                     avg_execution_time_ms = Finite (5 / 4), max_memory_mb = Finite 0\<rparr>,
          runtime_error = None\<rparr>, Map.empty)"
    by (simp add: eval_defs json_evals float_evals)
  from C4_results_in_input_order [OF run] show ?thesis
    using run by (simp add: example_request_def numeral_2_eq_2)
qed

section \<open>Pass flag and error\<close>

text \<open>
  Claim C10: the \<open>passed\<close> flag of a result is the comparison of the trimmed outputs only;
  the error and the timed-out flag of the outcome play no part in it, and the error is
  copied into the result as it is.  In particular, when the expected output trims to the
  empty string and the run produced no output (as a run that timed out or failed does), the
  result has \<open>passed\<close> set whatever error it carries.
\<close>

theorem C10_passed_ignores_error:
  assumes "(if d then run_code_docker else run_code_locally) w fs c l (input' tc) t m
             = (Inr r, fs1)"
  shows "execute_testcase w fs c l tc idx t m d =
           (Inr \<lparr>testcase_index = idx,
                 passed = compare_output w (strip (output' r))
                            (strip (TestcaseInput.expected_output tc)),
                 actual_output = strip (output' r),
                 expected_output = strip (TestcaseInput.expected_output tc),
                 execution_time_ms = ExecutionResult.execution_time_ms r,
                 memory_used_mb = ExecutionResult.memory_used_mb r,
                 error = ExecutionResult.error r\<rparr>, fs1)
       \<and> (strip (output' r) = [] \<and> strip (TestcaseInput.expected_output tc) = []
            \<longrightarrow> compare_output w (strip (output' r))
                  (strip (TestcaseInput.expected_output tc)))"
  using assms by (auto simp: execute_testcase_def Let_def compare_output_empty)

theorem C10_witness:
  "run_code_locally (example_world\<lparr>run_process := (\<lambda>cmd inp fs. (Hangs, fs))\<rparr>) Map.empty
     ''while True: pass'' ''python'' ''1'' 10 256
   = (Inr \<lparr>output' = [], execution_time_ms = Finite 10000, memory_used_mb = Finite 0,
           error = Some ''Time limit exceeded'', timed_out = True\<rparr>, Map.empty)
   \<and> execute_testcase (example_world\<lparr>run_process := (\<lambda>cmd inp fs. (Hangs, fs))\<rparr>) Map.empty
       ''while True: pass'' ''python'' \<lparr>input' = ''1'', expected_output = '' ''\<rparr> 0 10 256 False
     = (Inr \<lparr>testcase_index = 0, passed = True, actual_output = [], expected_output = [],
             execution_time_ms = Finite 10000, memory_used_mb = Finite 0,
             error = Some ''Time limit exceeded''\<rparr>, Map.empty)"
proof -
  have run: "(if False then run_code_docker else run_code_locally)
       (example_world\<lparr>run_process := (\<lambda>cmd inp fs. (Hangs, fs))\<rparr>) Map.empty
       ''while True: pass'' ''python'' (input' \<lparr>input' = ''1'', expected_output = '' ''\<rparr>) 10 256
     = (Inr \<lparr>output' = [], execution_time_ms = Finite 10000, memory_used_mb = Finite 0,
             error = Some ''Time limit exceeded'', timed_out = True\<rparr>, Map.empty)"
    by (simp add: eval_defs float_evals)
  from C10_passed_ignores_error [OF run, of 0] show ?thesis
    using run by (simp add: strip_def py_isspace_def)
qed


end
